theory Spec2Isabelle
  imports Complex_Main "HOL-Library.AList" "HOL-Library.Multiset" "HOL-Library.Word"
begin

section \<open>Data model\<close>

text \<open>
  The aggregation code (\<^verbatim>\<open>server_aggregate.py\<close>) works on NumPy arrays stored in
  \<^verbatim>\<open>.npz\<close> archives, on a Keras model file and on a TFLite file; the distribution
  code (\<^verbatim>\<open>main.py\<close>) reads the bytes of one TFLite file and a dictionary of
  counters. An array is its element type, its shape and its elements in row-major
  order. The elements are idealised as real numbers: rounding of the float64 arithmetic
  is not part of the model, so "equal within tolerance" is exact equality here.
\<close>

datatype dtype = Float16 | Float32 | Float64

record ndarray =
  dtype :: dtype
  shape :: "nat list"
  data :: "real list"

text \<open>A Python \<^verbatim>\<open>dict\<close> keeps insertion order: an association list.\<close>

type_synonym npz = "(string \<times> ndarray) list"

type_synonym bytes = "8 word list"

text \<open>What a file holds: an archive of named arrays, a Keras model (the list of
  arrays that \<^verbatim>\<open>get_weights\<close> returns) or raw bytes (a TFLite flatbuffer).\<close>

datatype content = Npz npz | Keras "ndarray list" | Blob bytes

record stored_file =
  content :: content
  mtime :: nat

text \<open>The file system: the files by path and a logical clock that stamps every write
  (\<^verbatim>\<open>st_mtime\<close>).\<close>

record filesys =
  files :: "string \<rightharpoonup> stored_file"
  clock :: nat

text \<open>Exceptions of the source, as values. \<^verbatim>\<open>FileNotFoundError\<close> raised by the
  operating system carries the path; \<^verbatim>\<open>HTTPException\<close> carries status and detail.\<close>

datatype error =
    ValueError string
  | FileNotFoundError string
  | KeyError string
  | IndexError
  | AxisError
  | LoadError string
  | ConverterError
  | HTTPException nat string

section \<open>File system and dictionary primitives\<close>

definition exists_path :: "filesys \<Rightarrow> string \<Rightarrow> bool" where
  "exists_path fs p = (files fs p \<noteq> None)"

definition write_file :: "filesys \<Rightarrow> string \<Rightarrow> content \<Rightarrow> filesys" where
  "write_file fs p c =
     fs\<lparr>files := (files fs)(p \<mapsto> \<lparr>content = c, mtime = clock fs\<rparr>), clock := Suc (clock fs)\<rparr>"

definition dict_keys :: "('k \<times> 'v) list \<Rightarrow> 'k list" where
  "dict_keys d = map fst d"

definition dict_get :: "(string \<times> 'v) list \<Rightarrow> string \<Rightarrow> error + 'v" where
  "dict_get d k = (case map_of d k of None \<Rightarrow> Inl (KeyError k) | Some v \<Rightarrow> Inr v)"

definition dict_set :: "('k \<times> 'v) list \<Rightarrow> 'k \<Rightarrow> 'v \<Rightarrow> ('k \<times> 'v) list" where
  "dict_set d k v = AList.update k v d"

text \<open>A list comprehension whose body can raise: the first exception wins.\<close>

fun collect :: "('a \<Rightarrow> error + 'b) \<Rightarrow> 'a list \<Rightarrow> error + 'b list" where
  "collect f [] = Inr []"
| "collect f (x # xs) =
     (case f x of
        Inl e \<Rightarrow> Inl e
      | Inr y \<Rightarrow> (case collect f xs of Inl e \<Rightarrow> Inl e | Inr ys \<Rightarrow> Inr (y # ys)))"

section \<open>NumPy operations used by the aggregation\<close>

text \<open>\<^verbatim>\<open>a.astype(np.float64)\<close>: every float16/float32 value is a float64 value, so
  the elements are unchanged.\<close>

definition astype_float64 :: "ndarray \<Rightarrow> ndarray" where
  "astype_float64 a = a\<lparr>dtype := Float64\<rparr>"

text \<open>\<^verbatim>\<open>np.stack(arrays, axis=0)\<close>: raises on an empty list and on arrays of
  different shapes; the result has one more leading axis and the rows one after
  another.\<close>

definition np_stack :: "ndarray list \<Rightarrow> error + ndarray" where
  "np_stack arrays =
     (case arrays of
        [] \<Rightarrow> Inl (ValueError ''need at least one array to stack'')
      | a # as \<Rightarrow>
          if list_ex (\<lambda>b. shape b \<noteq> shape a) as
          then Inl (ValueError ''all input arrays must have the same shape'')
          else Inr \<lparr>dtype = dtype a, shape = length arrays # shape a,
                    data = concat (map data arrays)\<rparr>)"

text \<open>\<^verbatim>\<open>np.mean(stacked, axis=0)\<close>: the sum along the first axis divided by its
  length; a floating-point input keeps its element type.\<close>

definition np_mean_axis0 :: "ndarray \<Rightarrow> error + ndarray" where
  "np_mean_axis0 a =
     (case shape a of
        [] \<Rightarrow> Inl AxisError
      | n # s \<Rightarrow>
          let m = prod_list s in
          Inr \<lparr>dtype = dtype a, shape = s,
               data = map (\<lambda>j. (\<Sum>i\<leftarrow>[0..<n]. data a ! (i * m + j)) / real n) [0..<m]\<rparr>)"

definition endswith :: "string \<Rightarrow> string \<Rightarrow> bool" where
  "endswith s suf = (length suf \<le> length s \<and> drop (length s - length suf) s = suf)"

text \<open>\<^verbatim>\<open>np.savez_compressed(file, **arrays)\<close> appends \<^verbatim>\<open>.npz\<close> to a file name
  that does not end with it. The arrays are passed as keyword arguments; their names are
  taken not to clash with the parameter names of the function itself. A write to the
  disk is one step: it replaces the file and cannot fail half way.\<close>

definition savez_target :: "string \<Rightarrow> string" where
  "savez_target p = (if endswith p ''.npz'' then p else p @ ''.npz'')"

definition savez_compressed :: "string \<Rightarrow> npz \<Rightarrow> filesys \<Rightarrow> filesys" where
  "savez_compressed p arrays fs = write_file fs (savez_target p) (Npz arrays)"

section \<open>server_aggregate.py\<close>

definition GLOBAL_MODEL_KERAS :: string where
  "GLOBAL_MODEL_KERAS = ''final_model.keras''"

definition GLOBAL_MODEL_TFLITE :: string where
  "GLOBAL_MODEL_TFLITE = ''global_model.tflite''"

text \<open>\<^verbatim>\<open>load_npz\<close>: \<^verbatim>\<open>np.load\<close> raises when the path does not exist or the file is
  not an archive of arrays.\<close>

definition load_npz :: "filesys \<Rightarrow> string \<Rightarrow> error + npz" where
  "load_npz fs path =
     (case files fs path of
        None \<Rightarrow> Inl (FileNotFoundError path)
      | Some f \<Rightarrow> (case content f of Npz d \<Rightarrow> Inr d | _ \<Rightarrow> Inl (LoadError path)))"

text \<open>The body of the loop \<^verbatim>\<open>for k in keys\<close> of \<^verbatim>\<open>aggregate_npz_files\<close>.\<close>

definition average_key :: "npz list \<Rightarrow> string \<Rightarrow> error + ndarray" where
  "average_key loaded k =
     (case collect (\<lambda>d. case dict_get d k of Inl e \<Rightarrow> Inl e | Inr a \<Rightarrow> Inr (astype_float64 a)) loaded of
        Inl e \<Rightarrow> Inl e
      | Inr arrays \<Rightarrow>
          (case np_stack arrays of
             Inl e \<Rightarrow> Inl e
           | Inr stacked \<Rightarrow> np_mean_axis0 stacked))"

fun average_keys :: "npz list \<Rightarrow> string list \<Rightarrow> npz \<Rightarrow> error + npz" where
  "average_keys loaded [] averaged = Inr averaged"
| "average_keys loaded (k # ks) averaged =
     (case average_key loaded k of
        Inl e \<Rightarrow> Inl e
      | Inr m \<Rightarrow> average_keys loaded ks (dict_set averaged k m))"

definition aggregate_npz_files :: "string list \<Rightarrow> string \<Rightarrow> filesys \<Rightarrow> (error + string) \<times> filesys" where
  "aggregate_npz_files input_paths output_path fs =
     (if input_paths = [] then (Inl (ValueError ''No input files provided''), fs)
      else
        case collect (load_npz fs) input_paths of
          Inl e \<Rightarrow> (Inl e, fs)
        | Inr loaded \<Rightarrow>
            (case loaded of
               [] \<Rightarrow> (Inl IndexError, fs)
             | d0 # rest \<Rightarrow>
                 let keys = dict_keys d0 in
                 if list_ex (\<lambda>d. dict_keys d \<noteq> keys) rest
                 then (Inl (ValueError ''Mismatch in keys across uploaded files''), fs)
                 else
                   (case average_keys loaded keys [] of
                      Inl e \<Rightarrow> (Inl e, fs)
                    | Inr averaged \<Rightarrow> (Inr output_path, savez_compressed output_path averaged fs))))"

text \<open>\<^verbatim>\<open>tf.keras.models.load_model\<close> and \<^verbatim>\<open>model.save\<close>.\<close>

definition load_model :: "filesys \<Rightarrow> string \<Rightarrow> error + ndarray list" where
  "load_model fs path =
     (case files fs path of
        None \<Rightarrow> Inl (FileNotFoundError path)
      | Some f \<Rightarrow> (case content f of Keras m \<Rightarrow> Inr m | _ \<Rightarrow> Inl (LoadError path)))"

definition model_save :: "ndarray list \<Rightarrow> string \<Rightarrow> filesys \<Rightarrow> filesys" where
  "model_save model path fs = write_file fs path (Keras model)"

text \<open>\<^verbatim>\<open>keras_federated_averaging\<close>. The branch \<^verbatim>\<open>if len(client_weights_list) > 0\<close>
  only prints, and \<^verbatim>\<open>current_weights\<close> is read and not used: the loaded model is
  saved as it is.\<close>

definition keras_federated_averaging ::
  "npz list \<Rightarrow> string \<Rightarrow> filesys \<Rightarrow> (error + ndarray list) \<times> filesys" where
  "keras_federated_averaging client_weights_list global_model_path fs =
     (if client_weights_list = [] then (Inl (ValueError ''No client weights provided''), fs)
      else if \<not> exists_path fs global_model_path
      then (Inl (FileNotFoundError (''Global model not found: '' @ global_model_path)), fs)
      else
        case load_model fs global_model_path of
          Inl e \<Rightarrow> (Inl e, fs)
        | Inr model \<Rightarrow> (Inr model, model_save model global_model_path fs))"

text \<open>\<^verbatim>\<open>convert_keras_to_tflite\<close>. The TFLite converter is a parameter:
  \<open>tflite_convert model\<close> is the flatbuffer, or \<open>None\<close> when
  \<^verbatim>\<open>converter.convert()\<close> raises.\<close>

definition convert_keras_to_tflite ::
  "(ndarray list \<Rightarrow> bytes option) \<Rightarrow> string \<Rightarrow> string \<Rightarrow> filesys \<Rightarrow> (error + string) \<times> filesys" where
  "convert_keras_to_tflite tflite_convert keras_model_path tflite_output_path fs =
     (if \<not> exists_path fs keras_model_path
      then (Inl (FileNotFoundError (''Keras model not found: '' @ keras_model_path)), fs)
      else
        case load_model fs keras_model_path of
          Inl e \<Rightarrow> (Inl e, fs)
        | Inr model \<Rightarrow>
            (case tflite_convert model of
               None \<Rightarrow> (Inl ConverterError, fs)
             | Some tflite_model \<Rightarrow>
                 (Inr tflite_output_path, write_file fs tflite_output_path (Blob tflite_model))))"

definition hybrid_fl_aggregation ::
  "(ndarray list \<Rightarrow> bytes option) \<Rightarrow> string list \<Rightarrow> string \<Rightarrow> string \<Rightarrow> filesys
     \<Rightarrow> (error + string \<times> string) \<times> filesys" where
  "hybrid_fl_aggregation tflite_convert input_paths keras_output_path tflite_output_path fs =
     (if input_paths = [] then (Inl (ValueError ''No input files provided''), fs)
      else
        case collect (load_npz fs) input_paths of
          Inl e \<Rightarrow> (Inl e, fs)
        | Inr client_weights \<Rightarrow>
            (case keras_federated_averaging client_weights keras_output_path fs of
               (Inl e, fs1) \<Rightarrow> (Inl e, fs1)
             | (Inr model, fs1) \<Rightarrow>
                 (case convert_keras_to_tflite tflite_convert keras_output_path tflite_output_path fs1 of
                    (Inl e, fs2) \<Rightarrow> (Inl e, fs2)
                  | (Inr tflite_path, fs2) \<Rightarrow> (Inr (keras_output_path, tflite_path), fs2))))"

section \<open>main.py\<close>

text \<open>The values of the \<^verbatim>\<open>stats\<close> dictionary are integers and floats.\<close>

datatype py_value = PyInt int | PyFloat real

text \<open>Library functions of the server that the model takes as parameters: the SHA-256
  hex digest, the bytes that an archive and a Keras model occupy on disk, and
  \<^verbatim>\<open>str\<close> on a float.\<close>

record pylib =
  sha256_hexdigest :: "bytes \<Rightarrow> string"
  npz_bytes :: "npz \<Rightarrow> bytes"
  keras_bytes :: "ndarray list \<Rightarrow> bytes"
  float_str :: "real \<Rightarrow> string"

definition digit_char :: "nat \<Rightarrow> char" where
  "digit_char d = ''0123456789'' ! d"

function str_nat :: "nat \<Rightarrow> string" where
  "str_nat n = (if n < 10 then [digit_char n] else str_nat (n div 10) @ [digit_char (n mod 10)])"
  by pat_completeness auto
termination
  by (relation "measure (\<lambda>n. n)") auto

declare str_nat.simps [simp del]

definition str_int :: "int \<Rightarrow> string" where
  "str_int i = (if i < 0 then CHR ''-'' # str_nat (nat (- i)) else str_nat (nat i))"

definition py_str :: "pylib \<Rightarrow> py_value \<Rightarrow> string" where
  "py_str L v = (case v of PyInt i \<Rightarrow> str_int i | PyFloat r \<Rightarrow> float_str L r)"

text \<open>\<^verbatim>\<open>d.get(k, default)\<close>.\<close>

definition dict_get_default :: "(string \<times> 'v) list \<Rightarrow> string \<Rightarrow> 'v \<Rightarrow> 'v" where
  "dict_get_default d k dflt = (case map_of d k of None \<Rightarrow> dflt | Some v \<Rightarrow> v)"

text \<open>\<^verbatim>\<open>open(path, 'rb').read()\<close> on a file that exists.\<close>

definition file_bytes :: "pylib \<Rightarrow> content \<Rightarrow> bytes" where
  "file_bytes L c = (case c of Blob bs \<Rightarrow> bs | Npz d \<Rightarrow> npz_bytes L d | Keras m \<Rightarrow> keras_bytes L m)"

text \<open>The state of the server process: the module-level \<^verbatim>\<open>stats\<close> and the disk.
  The module raises \<^verbatim>\<open>FileNotFoundError\<close> when it is loaded without the file
  \<^verbatim>\<open>TFLITE_MODEL\<close>, so a running server has started with that file present. The
  handlers modelled below read the state and do not change it; the module does not
  import \<^verbatim>\<open>server_aggregate\<close>, so a round is a call of
  \<^verbatim>\<open>hybrid_fl_aggregation\<close> made beside the server, on the same disk.\<close>

record server =
  stats :: "(string \<times> py_value) list"
  disk :: filesys

definition TFLITE_MODEL :: string where
  "TFLITE_MODEL = ''modic_model.tflite''"

text \<open>\<^verbatim>\<open>stats\<close> as the module initialises it, at start time \<open>t\<close>.\<close>

definition initial_stats :: "real \<Rightarrow> (string \<times> py_value) list" where
  "initial_stats t = [(''total_clients'', PyInt 0), (''server_start_time'', PyFloat t)]"

text \<open>The answer of \<^verbatim>\<open>/model_info\<close>; the two fields derived from the clock and from
  the size in megabytes (\<^verbatim>\<open>server_time\<close>, \<^verbatim>\<open>model_size_mb\<close>) are left out.\<close>

record model_info =
  model_hash :: string
  model_version :: string
  model_size_bytes :: nat
  last_modified :: nat
  download_url :: string

definition get_model_info :: "pylib \<Rightarrow> server \<Rightarrow> error + model_info" where
  "get_model_info L srv =
     (case files (disk srv) TFLITE_MODEL of
        None \<Rightarrow> Inl (HTTPException 404 ''No .tflite model available yet.'')
      | Some f \<Rightarrow>
          let file_hash = sha256_hexdigest L (file_bytes L (content f)) in
          Inr \<lparr>model_hash = file_hash,
               model_version = py_str L (dict_get_default (stats srv) ''total_aggregations'' (PyInt 0)),
               model_size_bytes = length (file_bytes L (content f)),
               last_modified = mtime f,
               download_url = ''/get_global_model''\<rparr>)"

text \<open>A \<^verbatim>\<open>FileResponse\<close>: the bytes of the file and the headers.\<close>

record file_response =
  body :: bytes
  media_type :: string
  filename :: string
  headers :: "(string \<times> string) list"

definition get_global_model :: "pylib \<Rightarrow> server \<Rightarrow> error + file_response" where
  "get_global_model L srv =
     (case files (disk srv) TFLITE_MODEL of
        None \<Rightarrow> Inl (HTTPException 404 ''No global .tflite model available yet. Run aggregation first.'')
      | Some f \<Rightarrow>
          let file_hash = sha256_hexdigest L (file_bytes L (content f)) in
          Inr \<lparr>body = file_bytes L (content f),
               media_type = ''application/octet-stream'',
               filename = ''modic_model.tflite'',
               headers = [(''Model-Version'', ''0''),
                          (''Model-Hash'', file_hash),
                          (''Model-Size'', str_nat (length (file_bytes L (content f))))]\<rparr>)"

text \<open>A sequence of aggregation rounds run on the server's disk, one call of
  \<^verbatim>\<open>hybrid_fl_aggregation\<close> each, with the number of rounds that succeeded.\<close>

fun run_rounds ::
  "(ndarray list \<Rightarrow> bytes option) \<Rightarrow> (string list \<times> string \<times> string) list \<Rightarrow> server \<Rightarrow> server \<times> nat" where
  "run_rounds cv [] srv = (srv, 0)"
| "run_rounds cv ((input_paths, keras_path, tflite_path) # rs) srv =
     (case hybrid_fl_aggregation cv input_paths keras_path tflite_path (disk srv) of
        (Inl e, fs') \<Rightarrow> run_rounds cv rs (srv\<lparr>disk := fs'\<rparr>)
      | (Inr r, fs') \<Rightarrow> (case run_rounds cv rs (srv\<lparr>disk := fs'\<rparr>) of (srv', k) \<Rightarrow> (srv', Suc k)))"

section \<open>Notions used to state the properties\<close>






section \<open>Concrete inputs\<close>

text \<open>Client weight files, a disk, a converter and library stand-ins on which the
  theorems below are instantiated. \<open>client_a\<close>, \<open>client_b\<close> and \<open>client_c\<close> are the
  three uploads of the specification's scenario.\<close>

definition float32_array :: "nat list \<Rightarrow> real list \<Rightarrow> ndarray" where
  "float32_array s xs = \<lparr>dtype = Float32, shape = s, data = xs\<rparr>"

definition client_a :: npz where
  "client_a = [(''w'', float32_array [2] [1, 2])]"

definition client_b :: npz where
  "client_b = [(''w'', float32_array [2] [3, 4])]"

definition client_c :: npz where
  "client_c = [(''w'', float32_array [2] [5, 6])]"

definition client_long :: npz where
  "client_long = [(''w'', float32_array [3] [1, 2, 3])]"

definition client_wb :: npz where
  "client_wb = [(''w'', float32_array [1] [1]), (''b'', float32_array [1] [2])]"

definition client_bw :: npz where
  "client_bw = [(''b'', float32_array [1] [4]), (''w'', float32_array [1] [3])]"

definition client_v :: npz where
  "client_v = [(''v'', float32_array [2] [1, 2])]"

definition example_disk :: filesys where
  "example_disk =
     \<lparr>files = map_of
        [(''a.npz'', \<lparr>content = Npz client_a, mtime = 1\<rparr>),
         (''b.npz'', \<lparr>content = Npz client_b, mtime = 2\<rparr>),
         (''c.npz'', \<lparr>content = Npz client_c, mtime = 3\<rparr>),
         (''long.npz'', \<lparr>content = Npz client_long, mtime = 4\<rparr>),
         (''wb.npz'', \<lparr>content = Npz client_wb, mtime = 4\<rparr>),
         (''bw.npz'', \<lparr>content = Npz client_bw, mtime = 5\<rparr>),
         (''v.npz'', \<lparr>content = Npz client_v, mtime = 6\<rparr>),
         (''final_model.keras'', \<lparr>content = Keras [float32_array [2] [10, 20]], mtime = 0\<rparr>),
         (''modic_model.tflite'', \<lparr>content = Blob [1, 2, 3], mtime = 0\<rparr>)],
      clock = 7\<rparr>"

definition example_convert :: "ndarray list \<Rightarrow> bytes option" where
  "example_convert model = Some [4, 5, 6, 7]"


definition example_lib :: pylib where
  "example_lib =
     \<lparr>sha256_hexdigest = (\<lambda>bs. str_nat (length bs)),
      npz_bytes = (\<lambda>d. []),
      keras_bytes = (\<lambda>m. []),
      float_str = (\<lambda>r. ''0.0'')\<rparr>"

definition example_server :: server where
  "example_server = \<lparr>stats = initial_stats 0, disk = example_disk\<rparr>"

section \<open>Auxiliary lemmas\<close>




lemma collect_Inr_iff:
  "collect f xs = Inr ys \<Longrightarrow> \<forall>x\<in>set xs. \<exists>y. f x = Inr y"
  by (induction xs arbitrary: ys) (auto split: sum.splits)

lemma collect_Inr_nth:
  "collect f xs = Inr ys \<Longrightarrow> i < length xs \<Longrightarrow> f (xs ! i) = Inr (ys ! i)"
proof (induction xs arbitrary: ys i)
  case Nil then show ?case by simp
next
  case (Cons x xs)
  then show ?case by (cases i) (auto split: sum.splits)
qed















lemma str_nat_0: "str_nat 0 = ''0''"
  by (simp add: str_nat.simps digit_char_def)

lemma example_load:
  "load_npz example_disk ''a.npz'' = Inr client_a"
  "load_npz example_disk ''b.npz'' = Inr client_b"
  "load_npz example_disk ''c.npz'' = Inr client_c"
  "load_npz example_disk ''long.npz'' = Inr client_long"
  "load_npz example_disk ''wb.npz'' = Inr client_wb"
  "load_npz example_disk ''bw.npz'' = Inr client_bw"
  "load_npz example_disk ''v.npz'' = Inr client_v"
  by (simp_all add: load_npz_def example_disk_def)


lemmas example_clients =
  client_a_def client_b_def client_c_def client_long_def client_wb_def client_bw_def client_v_def
  float32_array_def

lemmas aggregate_eval =
  aggregate_npz_files_def average_key_def dict_get_def dict_keys_def astype_float64_def
  np_stack_def np_mean_axis0_def dict_set_def Let_def eval_nat_numeral





lemma collect_astype_dtype:
  "collect (\<lambda>d. case dict_get d k of Inl e \<Rightarrow> Inl e | Inr a \<Rightarrow> Inr (astype_float64 a)) loaded = Inr arrays
     \<Longrightarrow> \<forall>a\<in>set arrays. dtype a = Float64"
  by (induction loaded arbitrary: arrays) (auto simp: astype_float64_def split: sum.splits)

lemma np_stack_dtype:
  "np_stack arrays = Inr stacked \<Longrightarrow> \<forall>a\<in>set arrays. dtype a = t \<Longrightarrow> dtype stacked = t"
  by (auto simp: np_stack_def split: list.splits if_splits)

lemma np_mean_axis0_dtype: "np_mean_axis0 a = Inr m \<Longrightarrow> dtype m = dtype a"
  by (auto simp: np_mean_axis0_def Let_def split: list.splits)

lemma average_key_dtype: "average_key loaded k = Inr m \<Longrightarrow> dtype m = Float64"
  unfolding average_key_def
  by (auto split: sum.splits dest!: collect_astype_dtype np_mean_axis0_dtype dest: np_stack_dtype)

lemma average_keys_dtype:
  "average_keys loaded ks acc = Inr averaged \<Longrightarrow>
     (\<forall>k a. map_of acc k = Some a \<longrightarrow> dtype a = Float64) \<Longrightarrow>
     (\<forall>k a. map_of averaged k = Some a \<longrightarrow> dtype a = Float64)"
proof (induction ks arbitrary: acc)
  case Nil
  then show ?case by simp
next
  case (Cons k ks)
  from Cons.prems(1) obtain m where m: "average_key loaded k = Inr m"
    and r: "average_keys loaded ks (dict_set acc k m) = Inr averaged"
    by (auto split: sum.splits)
  have "\<forall>k' a. map_of (dict_set acc k m) k' = Some a \<longrightarrow> dtype a = Float64"
    using Cons.prems(2) average_key_dtype [OF m]
    by (auto simp: dict_set_def update_conv' split: if_splits)
  with r show ?case by (rule Cons.IH)
qed

lemma example_aggregate_ab:
  "aggregate_npz_files [''a.npz'', ''b.npz''] ''out.npz'' example_disk
     = (Inr ''out.npz'',
        savez_compressed ''out.npz''
          [(''w'', \<lparr>dtype = Float64, shape = [2], data = [2, 3]\<rparr>)] example_disk)"
  by (simp add: example_load aggregate_eval example_clients)






lemma keras_federated_averaging_failure:
  "keras_federated_averaging client_weights_list p fs = (Inl e, fs') \<Longrightarrow> fs' = fs"
  by (auto simp: keras_federated_averaging_def split: if_splits sum.splits)

lemma load_model_after_save: "load_model (model_save model p fs) p = Inr model"
  by (simp add: load_model_def model_save_def write_file_def)

lemma exists_after_save: "exists_path (model_save model p fs) p"
  by (simp add: exists_path_def model_save_def write_file_def)

lemma convert_after_save:
  "convert_keras_to_tflite cv p tp (model_save model p fs) =
     (case cv model of
        None \<Rightarrow> (Inl ConverterError, model_save model p fs)
      | Some b \<Rightarrow> (Inr tp, write_file (model_save model p fs) tp (Blob b)))"
  by (simp add: convert_keras_to_tflite_def exists_after_save load_model_after_save)




lemma example_model:
  "load_model example_disk ''final_model.keras'' = Inr [float32_array [2] [10, 20]]"
  "exists_path example_disk ''final_model.keras''"
  by (simp_all add: load_model_def exists_path_def example_disk_def)


lemma example_served:
  "exists_path (disk example_server) TFLITE_MODEL"
  by (simp add: exists_path_def example_server_def example_disk_def TFLITE_MODEL_def)

lemma hybrid_keeps_files:
  "exists_path fs p \<Longrightarrow> hybrid_fl_aggregation cv ps kp tp fs = (res, fs') \<Longrightarrow> exists_path fs' p"
  by (auto simp: hybrid_fl_aggregation_def keras_federated_averaging_def convert_keras_to_tflite_def
        model_save_def write_file_def exists_path_def
        split: if_splits sum.splits prod.splits option.splits)

lemma run_rounds_stats: "run_rounds cv rounds srv = (srv', k) \<Longrightarrow> stats srv' = stats srv"
proof (induction rounds arbitrary: srv srv' k)
  case Nil
  then show ?case by simp
next
  case (Cons r rounds)
  obtain ps kp tp where r: "r = (ps, kp, tp)" by (cases r) auto
  obtain res fs1 where h: "hybrid_fl_aggregation cv ps kp tp (disk srv) = (res, fs1)"
    by (cases "hybrid_fl_aggregation cv ps kp tp (disk srv)") auto
  from Cons.prems obtain k' where "run_rounds cv rounds (srv\<lparr>disk := fs1\<rparr>) = (srv', k')"
    by (auto simp: r h split: sum.splits prod.splits)
  from Cons.IH [OF this] show ?case by simp
qed

lemma run_rounds_keeps_files:
  "run_rounds cv rounds srv = (srv', k) \<Longrightarrow> exists_path (disk srv) p \<Longrightarrow> exists_path (disk srv') p"
proof (induction rounds arbitrary: srv srv' k)
  case Nil
  then show ?case by simp
next
  case (Cons r rounds)
  obtain ps kp tp where r: "r = (ps, kp, tp)" by (cases r) auto
  obtain res fs1 where h: "hybrid_fl_aggregation cv ps kp tp (disk srv) = (res, fs1)"
    by (cases "hybrid_fl_aggregation cv ps kp tp (disk srv)") auto
  from Cons.prems(1) obtain k' where rr: "run_rounds cv rounds (srv\<lparr>disk := fs1\<rparr>) = (srv', k')"
    by (auto simp: r h split: sum.splits prod.splits)
  have "exists_path (disk (srv\<lparr>disk := fs1\<rparr>)) p"
    using hybrid_keeps_files [OF Cons.prems(2) h] by simp
  with rr show ?case by (rule Cons.IH)
qed

lemma example_round:
  "run_rounds example_convert [([''a.npz''], ''final_model.keras'', ''modic_model.tflite'')]
       example_server
     = (example_server
          \<lparr>disk := write_file
                     (model_save [float32_array [2] [10, 20]] ''final_model.keras'' example_disk)
                     ''modic_model.tflite'' (Blob [4, 5, 6, 7])\<rparr>,
        1)"
proof -
  have "hybrid_fl_aggregation example_convert [''a.npz''] ''final_model.keras''
          ''modic_model.tflite'' example_disk
     = (Inr (''final_model.keras'', ''modic_model.tflite''),
        write_file (model_save [float32_array [2] [10, 20]] ''final_model.keras'' example_disk)
          ''modic_model.tflite'' (Blob [4, 5, 6, 7]))"
    by (simp add: hybrid_fl_aggregation_def example_load keras_federated_averaging_def
          example_model convert_after_save example_convert_def)
  moreover have "disk example_server = example_disk"
    by (simp add: example_server_def)
  ultimately show ?thesis by simp
qed

section \<open>Aggregation computes the elementwise mean\<close>




section \<open>Manifest and artifact\<close>

text \<open>
  Claim C2. In every state of the server in which the served model file exists, and so
  in every state after a publish, \<^verbatim>\<open>/model_info\<close> and \<^verbatim>\<open>/get_global_model\<close> both answer,
  and the SHA-256 digest of the bytes that \<^verbatim>\<open>/get_global_model\<close> returns equals the
  \<^verbatim>\<open>model_hash\<close> of \<^verbatim>\<open>/model_info\<close>, which is also the \<^verbatim>\<open>Model-Hash\<close> header of the
  download. The digest function is a parameter: the statement holds for every one.
\<close>

theorem manifest_hash_matches_artifact:
  assumes "exists_path (disk srv) TFLITE_MODEL"
  shows "\<exists>info resp.
           get_model_info L srv = Inr info \<and>
           get_global_model L srv = Inr resp \<and>
           sha256_hexdigest L (body resp) = model_hash info \<and>
           map_of (headers resp) ''Model-Hash'' = Some (model_hash info)"
proof -
  from assms obtain f where f: "files (disk srv) TFLITE_MODEL = Some f"
    by (auto simp: exists_path_def)
  show ?thesis
    by (simp add: get_model_info_def get_global_model_def f Let_def)
qed

theorem manifest_hash_matches_artifact_witness:
  "exists_path (disk example_server) TFLITE_MODEL \<and>
   (\<exists>info resp.
      get_model_info example_lib example_server = Inr info \<and>
      get_global_model example_lib example_server = Inr resp \<and>
      body resp = [1, 2, 3] \<and>
      sha256_hexdigest example_lib (body resp) = model_hash info \<and>
      map_of (headers resp) ''Model-Hash'' = Some (model_hash info))"
proof -
  have b: "get_global_model example_lib example_server = Inr resp \<Longrightarrow> body resp = [1, 2, 3]" for resp
    by (auto simp: get_global_model_def example_server_def example_disk_def TFLITE_MODEL_def
          file_bytes_def Let_def)
  from manifest_hash_matches_artifact [OF example_served, of example_lib] b example_served
  show ?thesis by blast
qed

section \<open>The reported version\<close>

text \<open>
  Claim C3, as amended. The version that the manifest and the download report is 0 when
  the server starts and is still 0 after any sequence of aggregation rounds, successful
  or not: \<^verbatim>\<open>stats\<close> never receives the key \<^verbatim>\<open>total_aggregations\<close>, and the header
  \<^verbatim>\<open>Model-Version\<close> is the constant \<^verbatim>\<open>"0"\<close>. The version is therefore never
  decremented, and never incremented either.
\<close>

theorem reported_version_stays_zero:
  assumes st: "stats srv = initial_stats t"
    and ex: "exists_path (disk srv) TFLITE_MODEL"
    and rr: "run_rounds cv rounds srv = (srv', k)"
  shows "(\<exists>info. get_model_info L srv' = Inr info \<and> model_version info = ''0'') \<and>
         (\<exists>resp. get_global_model L srv' = Inr resp \<and>
                 map_of (headers resp) ''Model-Version'' = Some ''0'')"
proof -
  have s: "stats srv' = initial_stats t"
    using run_rounds_stats [OF rr] st by simp
  from run_rounds_keeps_files [OF rr ex]
  obtain f where f: "files (disk srv') TFLITE_MODEL = Some f"
    by (auto simp: exists_path_def)
  have v: "py_str L (dict_get_default (initial_stats t) ''total_aggregations'' (PyInt 0)) = ''0''"
    by (simp add: dict_get_default_def initial_stats_def py_str_def str_int_def str_nat_0)
  show ?thesis
    by (simp add: get_model_info_def get_global_model_def f s v Let_def)
qed

theorem reported_version_stays_zero_witness:
  "stats example_server = initial_stats 0 \<and>
   exists_path (disk example_server) TFLITE_MODEL \<and>
   run_rounds example_convert [([''a.npz''], ''final_model.keras'', ''modic_model.tflite'')]
       example_server
     = (example_server
          \<lparr>disk := write_file
                     (model_save [float32_array [2] [10, 20]] ''final_model.keras'' example_disk)
                     ''modic_model.tflite'' (Blob [4, 5, 6, 7])\<rparr>,
        1) \<and>
   (\<exists>info. get_model_info example_lib
              (example_server
                 \<lparr>disk := write_file
                     (model_save [float32_array [2] [10, 20]] ''final_model.keras'' example_disk)
                     ''modic_model.tflite'' (Blob [4, 5, 6, 7])\<rparr>) = Inr info \<and>
           model_version info = ''0'') \<and>
   (\<exists>resp. get_global_model example_lib
              (example_server
                 \<lparr>disk := write_file
                     (model_save [float32_array [2] [10, 20]] ''final_model.keras'' example_disk)
                     ''modic_model.tflite'' (Blob [4, 5, 6, 7])\<rparr>) = Inr resp \<and>
           map_of (headers resp) ''Model-Version'' = Some ''0'')"
proof -
  have s: "stats example_server = initial_stats 0" by (simp add: example_server_def)
  from reported_version_stays_zero [OF s example_served example_round, of example_lib]
    s example_served example_round
  show ?thesis by blast
qed

text \<open>
  Claim C3 as stated has the version equal to the number of successful rounds. After
  one successful round that replaces the served model file, the manifest and the
  download header still report version 0, not 1.
\<close>

theorem version_after_one_round_counterexample:
  "run_rounds example_convert [([''a.npz''], ''final_model.keras'', ''modic_model.tflite'')]
       example_server
     = (example_server
          \<lparr>disk := write_file
                     (model_save [float32_array [2] [10, 20]] ''final_model.keras'' example_disk)
                     ''modic_model.tflite'' (Blob [4, 5, 6, 7])\<rparr>,
        1) \<and>
   (\<exists>info. get_model_info example_lib
              (example_server
                 \<lparr>disk := write_file
                     (model_save [float32_array [2] [10, 20]] ''final_model.keras'' example_disk)
                     ''modic_model.tflite'' (Blob [4, 5, 6, 7])\<rparr>) = Inr info \<and>
           model_version info = ''0'') \<and>
   (\<exists>resp. get_global_model example_lib
              (example_server
                 \<lparr>disk := write_file
                     (model_save [float32_array [2] [10, 20]] ''final_model.keras'' example_disk)
                     ''modic_model.tflite'' (Blob [4, 5, 6, 7])\<rparr>) = Inr resp \<and>
           body resp = [4, 5, 6, 7] \<and>
           map_of (headers resp) ''Model-Version'' = Some ''0'') \<and>
   str_nat 1 = ''1'' \<and> ''0'' \<noteq> ''1''"
proof -
  have f: "files (write_file
                     (model_save [float32_array [2] [10, 20]] ''final_model.keras'' example_disk)
                     ''modic_model.tflite'' (Blob [4, 5, 6, 7])) TFLITE_MODEL
             = Some \<lparr>content = Blob [4, 5, 6, 7], mtime = 8\<rparr>"
    by (simp add: write_file_def model_save_def TFLITE_MODEL_def example_disk_def)
  have v: "py_str example_lib (dict_get_default (stats example_server) ''total_aggregations'' (PyInt 0)) = ''0''"
    by (simp add: dict_get_default_def example_server_def initial_stats_def py_str_def
          str_int_def str_nat_0)
  have i: "\<exists>info. get_model_info example_lib
              (example_server
                 \<lparr>disk := write_file
                     (model_save [float32_array [2] [10, 20]] ''final_model.keras'' example_disk)
                     ''modic_model.tflite'' (Blob [4, 5, 6, 7])\<rparr>) = Inr info \<and>
           model_version info = ''0''"
    by (simp add: get_model_info_def f v Let_def)
  have g: "\<exists>resp. get_global_model example_lib
              (example_server
                 \<lparr>disk := write_file
                     (model_save [float32_array [2] [10, 20]] ''final_model.keras'' example_disk)
                     ''modic_model.tflite'' (Blob [4, 5, 6, 7])\<rparr>) = Inr resp \<and>
           body resp = [4, 5, 6, 7] \<and>
           map_of (headers resp) ''Model-Version'' = Some ''0''"
    by (simp add: get_global_model_def f Let_def file_bytes_def)
  have n: "str_nat 1 = ''1''" by (simp add: str_nat.simps digit_char_def)
  have d: "''0'' \<noteq> ''1''" by simp
  show ?thesis by (intro conjI example_round i g n d)
qed

section \<open>Failure of an aggregation round\<close>




section \<open>The training artifact after a round\<close>

text \<open>
  Claim C5 asks that the conversion step apply the aggregated client weights to the
  previous training artifact. The source loads the previous model and saves it again:
  on the example disk, whose model holds the weights \<open>[10, 20]\<close>, the call with the
  uploads \<open>client_a\<close> and \<open>client_b\<close> returns and stores the model with the weights
  \<open>[10, 20]\<close>, and the call with the upload \<open>client_c\<close> does the same.
\<close>

theorem placeholder_resaves_previous_model:
  "keras_federated_averaging [client_a, client_b] ''final_model.keras'' example_disk
     = (Inr [float32_array [2] [10, 20]],
        model_save [float32_array [2] [10, 20]] ''final_model.keras'' example_disk) \<and>
   keras_federated_averaging [client_c] ''final_model.keras'' example_disk
     = keras_federated_averaging [client_a, client_b] ''final_model.keras'' example_disk \<and>
   load_model example_disk ''final_model.keras'' = Inr [float32_array [2] [10, 20]] \<and>
   load_model (model_save [float32_array [2] [10, 20]] ''final_model.keras'' example_disk)
       ''final_model.keras''
     = Inr [float32_array [2] [10, 20]]"
  by (simp add: keras_federated_averaging_def example_model load_model_after_save)

section \<open>No participant threshold\<close>




section \<open>Failure modes of the aggregation\<close>




section \<open>Order independence\<close>



section \<open>Element type of the output\<close>

text \<open>
  Claim C9, as amended. For every key of every aggregation that succeeds, the mean is
  computed on arrays promoted to float64 and the array stored in the output archive has
  element type float64, whatever the element type of the input arrays: there is no cast
  back to the working precision of the inputs.
\<close>

theorem output_dtype_float64:
  assumes "aggregate_npz_files input_paths output_path fs = (Inr r, fs')"
  shows "\<exists>averaged.
           files fs' (savez_target output_path)
             = Some \<lparr>content = Npz averaged, mtime = clock fs\<rparr> \<and>
           (\<forall>k a. map_of averaged k = Some a \<longrightarrow> dtype a = Float64)"
proof -
  from assms obtain loaded ks averaged where
    a: "average_keys loaded ks [] = Inr averaged"
    and f: "fs' = savez_compressed output_path averaged fs"
    by (fastforce simp: aggregate_npz_files_def Let_def split: if_splits sum.splits list.splits)
  have "\<forall>k a. map_of averaged k = Some a \<longrightarrow> dtype a = Float64"
    using a by (rule average_keys_dtype) simp
  moreover have "files fs' (savez_target output_path)
                   = Some \<lparr>content = Npz averaged, mtime = clock fs\<rparr>"
    by (simp add: f savez_compressed_def write_file_def)
  ultimately show ?thesis by blast
qed

theorem output_dtype_float64_witness:
  "aggregate_npz_files [''a.npz'', ''b.npz''] ''out.npz'' example_disk
     = (Inr ''out.npz'',
        savez_compressed ''out.npz''
          [(''w'', \<lparr>dtype = Float64, shape = [2], data = [2, 3]\<rparr>)] example_disk) \<and>
   (\<exists>averaged.
      files (savez_compressed ''out.npz''
               [(''w'', \<lparr>dtype = Float64, shape = [2], data = [2, 3]\<rparr>)] example_disk) ''out.npz''
        = Some \<lparr>content = Npz averaged, mtime = 7\<rparr> \<and>
      map_option dtype (map_of averaged ''w'') = Some Float64)"
proof -
  have t: "savez_target ''out.npz'' = ''out.npz''"
    by (simp add: savez_target_def endswith_def)
  have c: "clock example_disk = 7" by (simp add: example_disk_def)
  from output_dtype_float64 [OF example_aggregate_ab] example_aggregate_ab
  show ?thesis
    unfolding t c by (auto simp: savez_compressed_def write_file_def t)
qed

text \<open>
  Claim C9 as stated says that float32 inputs yield a float32 output. The two float32
  uploads \<open>client_a\<close> and \<open>client_b\<close> yield a float64 array.
\<close>

theorem float32_inputs_float64_output_counterexample:
  "map_option dtype (map_of client_a ''w'') = Some Float32 \<and>
   map_option dtype (map_of client_b ''w'') = Some Float32 \<and>
   aggregate_npz_files [''a.npz'', ''b.npz''] ''out.npz'' example_disk
     = (Inr ''out.npz'',
        savez_compressed ''out.npz''
          [(''w'', \<lparr>dtype = Float64, shape = [2], data = [2, 3]\<rparr>)] example_disk) \<and>
   map_option (\<lambda>f. content f)
     (files (savez_compressed ''out.npz''
               [(''w'', \<lparr>dtype = Float64, shape = [2], data = [2, 3]\<rparr>)] example_disk) ''out.npz'')
     = Some (Npz [(''w'', \<lparr>dtype = Float64, shape = [2], data = [2, 3]\<rparr>)]) \<and>
   Float64 \<noteq> Float32"
  by (simp add: example_aggregate_ab client_a_def client_b_def float32_array_def
        savez_compressed_def write_file_def savez_target_def endswith_def)

section \<open>Aggregating a single file\<close>



end
